theory Spec2Isabelle
  imports Complex_Main
begin

section \<open>Bouncing balls: the data model of \<^verbatim>\<open>main.c\<close>\<close>

text \<open>
  The program keeps every coordinate in a C \<^verbatim>\<open>float\<close>. A \<^verbatim>\<open>float\<close> is modelled by
  the real number it denotes: arithmetic is exact, and rounding, infinities and NaN are
  outside the model. The C \<^verbatim>\<open>int\<close>s of the program (the viewport size, the arguments and
  results of the random generator, the loop counters) are modelled by \<open>int\<close>: the only
  integer arithmetic of the program is on compile-time constants far from the 32-bit range.
\<close>

subsection \<open>Configuration constants\<close>

definition SCREEN_WIDTH :: int where "SCREEN_WIDTH = 800"
definition SCREEN_HEIGHT :: int where "SCREEN_HEIGHT = 450"
definition TARGET_FPS :: int where "TARGET_FPS = 60"
definition NUM_BALLS :: nat where "NUM_BALLS = 2500"
definition BALL_RADIUS :: real where "BALL_RADIUS = 20"
definition BALL_MIN_SPEED :: real where "BALL_MIN_SPEED = 2"
definition BALL_MAX_SPEED :: real where "BALL_MAX_SPEED = 8"
definition UI_TEXT_SIZE :: int where "UI_TEXT_SIZE = 20"

subsection \<open>Vectors, colours and balls\<close>

text \<open>
  \<^verbatim>\<open>Vector2\<close> and \<^verbatim>\<open>Color\<close> come from \<^verbatim>\<open>raylib.h\<close>. The fields \<^verbatim>\<open>x\<close> and \<^verbatim>\<open>y\<close> of
  \<^verbatim>\<open>Vector2\<close> are called \<open>vec_x\<close> and \<open>vec_y\<close> here. Of \<^verbatim>\<open>Color\<close> the program
  uses only the named colours below: the palette of \<^verbatim>\<open>ballColors\<close>, in its order, and
  the background \<^verbatim>\<open>RAYWHITE\<close>.
\<close>

record Vector2 =
  vec_x :: real
  vec_y :: real

datatype Color =
    RED | BLUE | GREEN | YELLOW | PURPLE | ORANGE | PINK | GOLD | LIME | MAROON
  | DARKGREEN | SKYBLUE | DARKBLUE | MAGENTA | DARKBROWN | GRAY | DARKGRAY
  | RAYWHITE

record Ball =
  position :: Vector2
  velocity :: Vector2
  radius :: real
  color :: Color

subsection \<open>The physics step\<close>

text \<open>
  \<^verbatim>\<open>UpdateBall\<close> mutates the ball behind its pointer; the model returns the updated
  ball. Each \<open>let\<close> is one statement of the source, in the source's order.
\<close>

definition UpdateBall :: "Ball \<Rightarrow> int \<Rightarrow> int \<Rightarrow> Ball" where
  "UpdateBall ball screenWidth screenHeight =
    (let b1 = ball\<lparr>position := (position ball)
                 \<lparr>vec_x := vec_x (position ball) + vec_x (velocity ball)\<rparr>\<rparr>;
         b2 = b1\<lparr>position := (position b1)
                 \<lparr>vec_y := vec_y (position b1) + vec_y (velocity b1)\<rparr>\<rparr>;
         b3 = (if vec_x (position b2) + radius b2 \<ge> of_int screenWidth
                  \<or> vec_x (position b2) - radius b2 \<le> 0
               then b2\<lparr>velocity := (velocity b2)\<lparr>vec_x := vec_x (velocity b2) * (- 1)\<rparr>\<rparr>
               else b2)
     in if vec_y (position b3) + radius b3 \<ge> of_int screenHeight
           \<or> vec_y (position b3) - radius b3 \<le> 0
        then
          (let b4 = b3\<lparr>velocity := (velocity b3)\<lparr>vec_y := vec_y (velocity b3) * (- 1)\<rparr>\<rparr>
           in if vec_y (position b4) + radius b4 \<ge> of_int screenHeight
              then b4\<lparr>position := (position b4)\<lparr>vec_y := of_int screenHeight - radius b4\<rparr>\<rparr>
              else if vec_y (position b4) - radius b4 \<le> 0
              then b4\<lparr>position := (position b4)\<lparr>vec_y := radius b4\<rparr>\<rparr>
              else b4)
        else b3)"

text \<open>The two reflection conditions of the source, on a ball whose position is already
  advanced.\<close>

definition hits_x :: "Ball \<Rightarrow> int \<Rightarrow> bool" where
  "hits_x b screenWidth \<longleftrightarrow>
     vec_x (position b) + radius b \<ge> of_int screenWidth \<or> vec_x (position b) - radius b \<le> 0"

definition hits_y :: "Ball \<Rightarrow> int \<Rightarrow> bool" where
  "hits_y b screenHeight \<longleftrightarrow>
     vec_y (position b) + radius b \<ge> of_int screenHeight \<or> vec_y (position b) - radius b \<le> 0"

text \<open>The first two statements of \<^verbatim>\<open>UpdateBall\<close>: \<^verbatim>\<open>position += velocity\<close>.\<close>

definition advance :: "Ball \<Rightarrow> Ball" where
  "advance ball =
    (let b1 = ball\<lparr>position := (position ball)
                 \<lparr>vec_x := vec_x (position ball) + vec_x (velocity ball)\<rparr>\<rparr>
     in b1\<lparr>position := (position b1)
            \<lparr>vec_y := vec_y (position b1) + vec_y (velocity b1)\<rparr>\<rparr>)"

subsection \<open>The collaborator: drawing calls, random integers, the close query\<close>

text \<open>
  The windowing and graphics library is outside the program. Each call into it that has
  an effect is recorded as an event of a trace, in call order.
\<close>

datatype event =
    InitWindow int int string
  | SetTargetFPS int
  | BeginDrawing
  | ClearBackground Color
  | DrawCircleV Vector2 real Color
  | DrawText string int int int Color
  | EndDrawing
  | CloseWindow

text \<open>
  \<^verbatim>\<open>GetRandomValue(min, max)\<close> is a parameter of the model: a function from the two
  arguments and the generator's hidden state to the value returned and the next state.
  \<^verbatim>\<open>WindowShouldClose()\<close> is a parameter too: the answer to the \<open>k\<close>-th query of a run.
\<close>

type_synonym 'g rng = "int \<Rightarrow> int \<Rightarrow> 'g \<Rightarrow> int \<times> 'g"

subsection \<open>The initializer\<close>

text \<open>The cast \<^verbatim>\<open>(int)f\<close> of a float: truncation toward zero.\<close>

definition int_of_float :: "real \<Rightarrow> int" where
  "int_of_float f = (if f \<ge> 0 then \<lfloor>f\<rfloor> else \<lceil>f\<rceil>)"

definition ballColors :: "Color list" where
  "ballColors = [RED, BLUE, GREEN, YELLOW, PURPLE, ORANGE, PINK, GOLD, LIME, MAROON,
                 DARKGREEN, SKYBLUE, DARKBLUE, MAGENTA, DARKBROWN, GRAY, DARKGRAY]"

definition numColors :: int where
  "numColors = int (length ballColors)"

text \<open>
  Reading \<^verbatim>\<open>ballColors[i]\<close> outside the array is undefined behaviour in C; the model
  makes it an error.
\<close>

datatype error = Index_Out_Of_Bounds

text \<open>One iteration of the initializing loop: the seven draws, in the source's order.\<close>

definition init_ball :: "'g rng \<Rightarrow> 'g \<Rightarrow> error + (Ball \<times> 'g)" where
  "init_ball GetRandomValue g0 =
    (let (px, g1) = GetRandomValue (int_of_float BALL_RADIUS)
                      (SCREEN_WIDTH - int_of_float BALL_RADIUS) g0;
         (py, g2) = GetRandomValue (int_of_float BALL_RADIUS)
                      (SCREEN_HEIGHT - int_of_float BALL_RADIUS) g1;
         (rx, g3) = GetRandomValue (int_of_float (BALL_MIN_SPEED * 100))
                      (int_of_float (BALL_MAX_SPEED * 100)) g2;
         speedX0 = real_of_int rx / 100;
         (ry, g4) = GetRandomValue (int_of_float (BALL_MIN_SPEED * 100))
                      (int_of_float (BALL_MAX_SPEED * 100)) g3;
         speedY0 = real_of_int ry / 100;
         (fx, g5) = GetRandomValue 0 1 g4;
         speedX = (if fx \<noteq> 0 then speedX0 * (- 1) else speedX0);
         (fy, g6) = GetRandomValue 0 1 g5;
         speedY = (if fy \<noteq> 0 then speedY0 * (- 1) else speedY0);
         (ci, g7) = GetRandomValue 0 (numColors - 1) g6
     in if 0 \<le> ci \<and> ci < numColors
        then Inr (\<lparr>position = \<lparr>vec_x = real_of_int px, vec_y = real_of_int py\<rparr>,
                   velocity = \<lparr>vec_x = speedX, vec_y = speedY\<rparr>,
                   radius = BALL_RADIUS,
                   color = ballColors ! nat ci\<rparr>, g7)
        else Inl Index_Out_Of_Bounds)"

text \<open>The loop \<^verbatim>\<open>for (i = 0; i < n; i++)\<close> that fills \<^verbatim>\<open>balls[0..n-1]\<close>; the program
  runs it with \<open>n = NUM_BALLS\<close>.\<close>

fun init_balls :: "'g rng \<Rightarrow> nat \<Rightarrow> 'g \<Rightarrow> error + (Ball list \<times> 'g)" where
  "init_balls GetRandomValue 0 g = Inr ([], g)"
| "init_balls GetRandomValue (Suc n) g =
     (case init_ball GetRandomValue g of
        Inl e \<Rightarrow> Inl e
      | Inr (b, g1) \<Rightarrow>
          (case init_balls GetRandomValue n g1 of
             Inl e \<Rightarrow> Inl e
           | Inr (bs, g2) \<Rightarrow> Inr (b # bs, g2)))"

subsection \<open>The main loop\<close>

record world =
  balls :: "Ball list"
  trace :: "event list"

definition DrawBall :: "Ball \<Rightarrow> event list \<Rightarrow> event list" where
  "DrawBall ball tr = tr @ [DrawCircleV (position ball) (radius ball) (color ball)]"

text \<open>The update loop of a frame: \<^verbatim>\<open>UpdateBall(&balls[i], ...)\<close> for \<open>i\<close> from 0 up to
  \<open>NUM_BALLS - 1\<close>, on an array of \<open>NUM_BALLS\<close> balls.\<close>

definition physics_step :: "Ball list \<Rightarrow> Ball list" where
  "physics_step bs =
     foldl (\<lambda>a i. a[i := UpdateBall (a ! i) SCREEN_WIDTH SCREEN_HEIGHT]) bs [0..<length bs]"

definition render_step :: "Ball list \<Rightarrow> event list \<Rightarrow> event list" where
  "render_step bs tr =
    (let t1 = tr @ [BeginDrawing];
         t2 = t1 @ [ClearBackground RAYWHITE];
         t3 = foldl (\<lambda>t i. DrawBall (bs ! i) t) t2 [0..<length bs];
         t4 = t3 @ [DrawText ''C Version - Procedural Programming'' 10 10 UI_TEXT_SIZE DARKGRAY]
     in t4 @ [EndDrawing])"

text \<open>The body of the \<^verbatim>\<open>while\<close> loop: one frame.\<close>

definition frame :: "world \<Rightarrow> world" where
  "frame w =
    (let bs = physics_step (balls w)
     in \<lparr>balls = bs, trace = render_step bs (trace w)\<rparr>)"

text \<open>
  \<^verbatim>\<open>while (!WindowShouldClose()) { ... }\<close>, started at the \<open>k\<close>-th query. The loop
  need not end: a run in which the close query never reports true has the value \<open>None\<close>.
\<close>

partial_function (option) main_loop :: "(nat \<Rightarrow> bool) \<Rightarrow> nat \<Rightarrow> world \<Rightarrow> world option" where
  "main_loop WindowShouldClose k w =
     (if WindowShouldClose k then Some w
      else main_loop WindowShouldClose (Suc k) (frame w))"

text \<open>The program: its exit code and the trace of its calls, \<open>None\<close> when it runs forever.\<close>

definition main :: "'g rng \<Rightarrow> 'g \<Rightarrow> (nat \<Rightarrow> bool) \<Rightarrow> (error + int \<times> event list) option" where
  "main GetRandomValue g WindowShouldClose =
    (let t0 = [InitWindow SCREEN_WIDTH SCREEN_HEIGHT ''Raylib C - Bouncing Ball'',
               SetTargetFPS TARGET_FPS]
     in case init_balls GetRandomValue NUM_BALLS g of
          Inl e \<Rightarrow> Some (Inl e)
        | Inr (bs, g1) \<Rightarrow>
            (case main_loop WindowShouldClose 0 \<lparr>balls = bs, trace = t0\<rparr> of
               None \<Rightarrow> None
             | Some w \<Rightarrow> Some (Inr (0, trace w @ [CloseWindow]))))"

text \<open>A ball given by its fields, for the concrete instances below.\<close>

definition mk_ball :: "real \<Rightarrow> real \<Rightarrow> real \<Rightarrow> real \<Rightarrow> real \<Rightarrow> Color \<Rightarrow> Ball" where
  "mk_ball px py vx vy r c =
     \<lparr>position = \<lparr>vec_x = px, vec_y = py\<rparr>, velocity = \<lparr>vec_x = vx, vec_y = vy\<rparr>,
      radius = r, color = c\<rparr>"

section \<open>Properties of the physics step\<close>

lemma UpdateBall_radius: "radius (UpdateBall b w h) = radius b"
  by (simp add: UpdateBall_def Let_def)

lemma UpdateBall_color: "color (UpdateBall b w h) = color b"
  by (simp add: UpdateBall_def Let_def)

lemma UpdateBall_pos_x:
  "vec_x (position (UpdateBall b w h)) = vec_x (position b) + vec_x (velocity b)"
  by (simp add: UpdateBall_def Let_def)

lemma UpdateBall_vel_x:
  "vec_x (velocity (UpdateBall b w h)) =
     (if hits_x (advance b) w then - vec_x (velocity b) else vec_x (velocity b))"
  by (simp add: UpdateBall_def hits_x_def advance_def Let_def)

lemma UpdateBall_vel_y:
  "vec_y (velocity (UpdateBall b w h)) =
     (if hits_y (advance b) h then - vec_y (velocity b) else vec_y (velocity b))"
  by (simp add: UpdateBall_def hits_y_def advance_def Let_def)

lemma UpdateBall_pos_y:
  "vec_y (position (UpdateBall b w h)) =
     (let y1 = vec_y (position b) + vec_y (velocity b)
      in if y1 + radius b \<ge> of_int h then of_int h - radius b
         else if y1 - radius b \<le> 0 then radius b
         else y1)"
  by (simp add: UpdateBall_def Let_def)

subsection \<open>The update loop of a frame, and a ball that starts on the wall\<close>

lemma foldl_update_map:
  "n \<le> length bs \<Longrightarrow>
   foldl (\<lambda>a i. a[i := f (a ! i)]) bs [0..<n] = map f (take n bs) @ drop n bs"
proof (induction n)
  case 0
  then show ?case by simp
next
  case (Suc n)
  then have n: "n < length bs" by simp
  have d: "drop n bs = bs ! n # drop (Suc n) bs"
    using n by (simp add: Cons_nth_drop_Suc)
  have "(map f (take n bs) @ drop n bs)[n := f ((map f (take n bs) @ drop n bs) ! n)]
          = map f (take (Suc n) bs) @ drop (Suc n) bs"
    using n by (simp add: d list_update_append nth_append take_Suc_conv_app_nth)
  then show ?case using Suc by simp
qed

lemma physics_step_map:
  "physics_step bs = map (\<lambda>b. UpdateBall b SCREEN_WIDTH SCREEN_HEIGHT) bs"
  using foldl_update_map [of "length bs" bs "\<lambda>b. UpdateBall b SCREEN_WIDTH SCREEN_HEIGHT"]
  by (simp add: physics_step_def)

lemma frame_radius_color:
  "map radius (balls (frame wd)) = map radius (balls wd)
   \<and> map color (balls (frame wd)) = map color (balls wd)"
  by (simp add: frame_def Let_def physics_step_map UpdateBall_radius UpdateBall_color o_def)

lemma frames_radius_color:
  "map radius (balls ((frame ^^ n) wd)) = map radius (balls wd)
   \<and> map color (balls ((frame ^^ n) wd)) = map color (balls wd)"
  by (induction n) (simp_all add: frame_radius_color)

lemma stuck_step:
  assumes "radius b = 20"
    and "(vec_x (position b) = 20 \<and> vec_x (velocity b) = - 3)
         \<or> (vec_x (position b) = 17 \<and> vec_x (velocity b) = 3)"
  shows "hits_x (advance b) 800 \<and> radius (UpdateBall b 800 h) = 20
    \<and> ((vec_x (position (UpdateBall b 800 h)) = 20 \<and> vec_x (velocity (UpdateBall b 800 h)) = - 3)
       \<or> (vec_x (position (UpdateBall b 800 h)) = 17 \<and> vec_x (velocity (UpdateBall b 800 h)) = 3))"
  using assms
  by (auto simp add: UpdateBall_radius UpdateBall_pos_x UpdateBall_vel_x hits_x_def advance_def Let_def)

lemma stuck_steps:
  "radius (((\<lambda>b. UpdateBall b 800 h) ^^ n) (mk_ball 20 100 (- 3) 2 20 RED)) = 20
   \<and> ((vec_x (position (((\<lambda>b. UpdateBall b 800 h) ^^ n) (mk_ball 20 100 (- 3) 2 20 RED))) = 20
        \<and> vec_x (velocity (((\<lambda>b. UpdateBall b 800 h) ^^ n) (mk_ball 20 100 (- 3) 2 20 RED))) = - 3)
      \<or> (vec_x (position (((\<lambda>b. UpdateBall b 800 h) ^^ n) (mk_ball 20 100 (- 3) 2 20 RED))) = 17
        \<and> vec_x (velocity (((\<lambda>b. UpdateBall b 800 h) ^^ n) (mk_ball 20 100 (- 3) 2 20 RED))) = 3))"
proof (induction n)
  case 0
  then show ?case by (simp add: mk_ball_def)
next
  case (Suc n)
  then show ?case using stuck_step by simp
qed

lemma clamp_trap_facts:
  "hits_y (advance (mk_ball 100 1000 3 (- 5) 20 RED)) SCREEN_HEIGHT"
  "vec_y (position (UpdateBall (mk_ball 100 1000 3 (- 5) 20 RED) SCREEN_WIDTH SCREEN_HEIGHT)) = 430"
  "vec_y (velocity (UpdateBall (mk_ball 100 1000 3 (- 5) 20 RED) SCREEN_WIDTH SCREEN_HEIGHT)) = 5"
  by (simp_all add: UpdateBall_def Let_def mk_ball_def hits_y_def advance_def SCREEN_HEIGHT_def)

subsection \<open>Lemmas about the initializer and the main loop\<close>

lemma init_consts:
  "int_of_float BALL_RADIUS = 20"
  "int_of_float (BALL_MIN_SPEED * 100) = 200"
  "int_of_float (BALL_MAX_SPEED * 100) = 800"
  "numColors = 17"
  by (simp_all add: int_of_float_def BALL_RADIUS_def BALL_MIN_SPEED_def BALL_MAX_SPEED_def
      numColors_def ballColors_def)

lemma init_ball_bounds:
  assumes "\<And>lo hi g. lo \<le> hi \<Longrightarrow>
             lo \<le> fst (GetRandomValue lo hi g) \<and> fst (GetRandomValue lo hi g) \<le> hi"
  shows "\<exists>b g1. init_ball GetRandomValue g = Inr (b, g1)
     \<and> 20 \<le> vec_x (position b) \<and> vec_x (position b) \<le> 780
     \<and> 20 \<le> vec_y (position b) \<and> vec_y (position b) \<le> 430
     \<and> BALL_MIN_SPEED \<le> \<bar>vec_x (velocity b)\<bar> \<and> \<bar>vec_x (velocity b)\<bar> \<le> BALL_MAX_SPEED
     \<and> BALL_MIN_SPEED \<le> \<bar>vec_y (velocity b)\<bar> \<and> \<bar>vec_y (velocity b)\<bar> \<le> BALL_MAX_SPEED"
proof -
  obtain px g1 where 1: "GetRandomValue 20 780 g = (px, g1)" by fastforce
  obtain py g2 where 2: "GetRandomValue 20 430 g1 = (py, g2)" by fastforce
  obtain rx g3 where 3: "GetRandomValue 200 800 g2 = (rx, g3)" by fastforce
  obtain ry g4 where 4: "GetRandomValue 200 800 g3 = (ry, g4)" by fastforce
  obtain fx g5 where 5: "GetRandomValue 0 1 g4 = (fx, g5)" by fastforce
  obtain fy g6 where 6: "GetRandomValue 0 1 g5 = (fy, g6)" by fastforce
  obtain ci g7 where 7: "GetRandomValue 0 16 g6 = (ci, g7)" by fastforce
  have r: "lo \<le> v \<and> v \<le> hi" if "lo \<le> hi" "GetRandomValue lo hi s = (v, s')" for lo hi s v s'
    using assms [OF that(1), of s] that(2) by simp
  have bx: "20 \<le> px \<and> px \<le> 780" using r [OF _ 1] by simp
  have by': "20 \<le> py \<and> py \<le> 430" using r [OF _ 2] by simp
  have brx: "200 \<le> rx \<and> rx \<le> 800" using r [OF _ 3] by simp
  have bry: "200 \<le> ry \<and> ry \<le> 800" using r [OF _ 4] by simp
  have bci: "0 \<le> ci \<and> ci \<le> 16" using r [OF _ 7] by simp
  have eq: "init_ball GetRandomValue g =
     Inr (\<lparr>position = \<lparr>vec_x = real_of_int px, vec_y = real_of_int py\<rparr>,
           velocity = \<lparr>vec_x = (if fx \<noteq> 0 then real_of_int rx / 100 * (- 1)
                                 else real_of_int rx / 100),
                       vec_y = (if fy \<noteq> 0 then real_of_int ry / 100 * (- 1)
                                 else real_of_int ry / 100)\<rparr>,
           radius = BALL_RADIUS, color = ballColors ! nat ci\<rparr>, g7)"
    using bci
    by (simp add: init_ball_def init_consts SCREEN_WIDTH_def SCREEN_HEIGHT_def
        1 2 3 4 5 6 7 Let_def)
  have "200 \<le> real_of_int rx" "real_of_int rx \<le> 800"
       "200 \<le> real_of_int ry" "real_of_int ry \<le> 800"
    using brx bry by simp_all
  then show ?thesis
    using bx by' unfolding eq
    by (simp add: BALL_MIN_SPEED_def BALL_MAX_SPEED_def)
qed

lemma init_balls_bounds_any:
  assumes "\<And>lo hi g. lo \<le> hi \<Longrightarrow>
             lo \<le> fst (GetRandomValue lo hi g) \<and> fst (GetRandomValue lo hi g) \<le> hi"
  shows "\<exists>bs g1. init_balls GetRandomValue n g = Inr (bs, g1) \<and> length bs = n
     \<and> (\<forall>b\<in>set bs.
           20 \<le> vec_x (position b) \<and> vec_x (position b) \<le> 780
         \<and> 20 \<le> vec_y (position b) \<and> vec_y (position b) \<le> 430
         \<and> BALL_MIN_SPEED \<le> \<bar>vec_x (velocity b)\<bar> \<and> \<bar>vec_x (velocity b)\<bar> \<le> BALL_MAX_SPEED
         \<and> BALL_MIN_SPEED \<le> \<bar>vec_y (velocity b)\<bar> \<and> \<bar>vec_y (velocity b)\<bar> \<le> BALL_MAX_SPEED)"
proof (induction n arbitrary: g)
  case 0
  then show ?case by simp
next
  case (Suc n)
  have "\<exists>b g1. init_ball GetRandomValue g = Inr (b, g1)
     \<and> 20 \<le> vec_x (position b) \<and> vec_x (position b) \<le> 780
     \<and> 20 \<le> vec_y (position b) \<and> vec_y (position b) \<le> 430
     \<and> BALL_MIN_SPEED \<le> \<bar>vec_x (velocity b)\<bar> \<and> \<bar>vec_x (velocity b)\<bar> \<le> BALL_MAX_SPEED
     \<and> BALL_MIN_SPEED \<le> \<bar>vec_y (velocity b)\<bar> \<and> \<bar>vec_y (velocity b)\<bar> \<le> BALL_MAX_SPEED"
    by (rule init_ball_bounds) (rule assms)
  then obtain b g1 where b: "init_ball GetRandomValue g = Inr (b, g1)"
    and pb: "20 \<le> vec_x (position b) \<and> vec_x (position b) \<le> 780
     \<and> 20 \<le> vec_y (position b) \<and> vec_y (position b) \<le> 430
     \<and> BALL_MIN_SPEED \<le> \<bar>vec_x (velocity b)\<bar> \<and> \<bar>vec_x (velocity b)\<bar> \<le> BALL_MAX_SPEED
     \<and> BALL_MIN_SPEED \<le> \<bar>vec_y (velocity b)\<bar> \<and> \<bar>vec_y (velocity b)\<bar> \<le> BALL_MAX_SPEED"
    by blast
  obtain bs g2 where bs: "init_balls GetRandomValue n g1 = Inr (bs, g2)" "length bs = n"
    and pbs: "\<forall>b\<in>set bs.
           20 \<le> vec_x (position b) \<and> vec_x (position b) \<le> 780
         \<and> 20 \<le> vec_y (position b) \<and> vec_y (position b) \<le> 430
         \<and> BALL_MIN_SPEED \<le> \<bar>vec_x (velocity b)\<bar> \<and> \<bar>vec_x (velocity b)\<bar> \<le> BALL_MAX_SPEED
         \<and> BALL_MIN_SPEED \<le> \<bar>vec_y (velocity b)\<bar> \<and> \<bar>vec_y (velocity b)\<bar> \<le> BALL_MAX_SPEED"
    using Suc.IH by blast
  have "init_balls GetRandomValue (Suc n) g = Inr (b # bs, g2)"
    using b bs(1) by simp
  moreover have "length (b # bs) = Suc n" using bs(2) by simp
  moreover have "\<forall>b\<in>set (b # bs).
           20 \<le> vec_x (position b) \<and> vec_x (position b) \<le> 780
         \<and> 20 \<le> vec_y (position b) \<and> vec_y (position b) \<le> 430
         \<and> BALL_MIN_SPEED \<le> \<bar>vec_x (velocity b)\<bar> \<and> \<bar>vec_x (velocity b)\<bar> \<le> BALL_MAX_SPEED
         \<and> BALL_MIN_SPEED \<le> \<bar>vec_y (velocity b)\<bar> \<and> \<bar>vec_y (velocity b)\<bar> \<le> BALL_MAX_SPEED"
    using pb pbs by simp
  ultimately show ?case by blast
qed

lemma main_loop_runs:
  "WindowShouldClose (k + n) \<Longrightarrow> \<forall>j<n. \<not> WindowShouldClose (k + j) \<Longrightarrow>
   main_loop WindowShouldClose k w = Some ((frame ^^ n) w)"
proof (induction n arbitrary: k w)
  case 0
  then show ?case by (simp add: main_loop.simps)
next
  case (Suc n)
  have nk: "\<not> WindowShouldClose k"
    using Suc.prems(2) by force
  have a: "WindowShouldClose (Suc k + n)"
    using Suc.prems(1) by simp
  have b: "\<forall>j<n. \<not> WindowShouldClose (Suc k + j)"
    using Suc.prems(2) by (metis Suc_less_eq add_Suc_shift)
  have "main_loop WindowShouldClose k w = main_loop WindowShouldClose (Suc k) (frame w)"
    using nk by (subst main_loop.simps) simp
  also have "\<dots> = Some ((frame ^^ n) (frame w))"
    using Suc.IH [OF a b] .
  finally show ?case
    by (simp add: funpow_swap1)
qed

lemma main_exit_code:
  "main GetRandomValue g WindowShouldClose = Some (Inr (c, tr)) \<Longrightarrow> c = 0"
  by (auto simp add: main_def Let_def split: sum.splits option.splits prod.splits)

lemma init_ball_lowest:
  "init_ball (\<lambda>lo hi (g::unit). (lo, g)) () = Inr (mk_ball 20 20 2 2 20 RED, ())"
  by (simp add: init_ball_def mk_ball_def int_of_float_def BALL_RADIUS_def BALL_MIN_SPEED_def
      BALL_MAX_SPEED_def ballColors_def numColors_def)

lemma init_balls_lowest:
  "init_balls (\<lambda>lo hi (g::unit). (lo, g)) n ()
     = Inr (replicate n (mk_ball 20 20 2 2 20 RED), ())"
  by (induction n) (simp_all add: init_ball_lowest)

subsection \<open>Claims about one physics step\<close>

text \<open>
  C3. \<^verbatim>\<open>UpdateBall\<close> first adds the velocity to the position, in both components:
  \<open>position.x\<close> ends at \<open>x + velocity.x\<close>, and \<open>position.y\<close> ends at
  \<open>y + velocity.y\<close> unless the vertical branch replaces that advanced value by its clamp.
  Then, when the advanced \<open>x\<close> satisfies \<open>x + radius \<ge> width\<close> or
  \<open>x - radius \<le> 0\<close>, it negates \<open>velocity.x\<close>, and it leaves \<open>position.x\<close> at the
  advanced value (no clamp). The ball at \<open>(5, 100)\<close> with radius 20 and velocity
  \<open>(-3, 0)\<close> in a viewport of width 800 ends with \<open>velocity.x = 3\<close> and
  \<open>position.x = 2\<close>.
\<close>

theorem horizontal_reflection:
  "vec_x (position (UpdateBall b w h)) = vec_x (position b) + vec_x (velocity b)
   \<and> vec_y (position (UpdateBall b w h)) =
       (if vec_y (position b) + vec_y (velocity b) + radius b \<ge> of_int h
        then of_int h - radius b
        else if vec_y (position b) + vec_y (velocity b) - radius b \<le> 0
        then radius b
        else vec_y (position b) + vec_y (velocity b))
   \<and> vec_x (velocity (UpdateBall b w h)) =
       (if vec_x (position b) + vec_x (velocity b) + radius b \<ge> of_int w
           \<or> vec_x (position b) + vec_x (velocity b) - radius b \<le> 0
        then - vec_x (velocity b) else vec_x (velocity b))
   \<and> vec_x (velocity (UpdateBall (mk_ball 5 100 (- 3) 0 20 c) 800 h)) = 3
   \<and> vec_x (position (UpdateBall (mk_ball 5 100 (- 3) 0 20 c) 800 h)) = 2"
  by (simp add: UpdateBall_def Let_def mk_ball_def)

theorem horizontal_reflection_witness:
  "vec_x (velocity (UpdateBall (mk_ball 5 100 (- 3) 0 20 RED) 800 450)) = 3
   \<and> vec_x (position (UpdateBall (mk_ball 5 100 (- 3) 0 20 RED) 800 450)) = 2
   \<and> vec_y (position (UpdateBall (mk_ball 5 100 (- 3) 0 20 RED) 800 450)) = 100 + 0"
  using horizontal_reflection [where b = "mk_ball 5 100 (- 3) 0 20 RED" and w = 800 and h = 450 and c = RED]
  by (simp add: mk_ball_def)

text \<open>
  C4. When the advanced \<open>y\<close> satisfies \<open>y + radius \<ge> height\<close> or \<open>y - radius \<le> 0\<close>,
  \<^verbatim>\<open>UpdateBall\<close> negates \<open>velocity.y\<close> and sets \<open>position.y\<close> to exactly
  \<open>height - radius\<close> when the first condition holds, and to \<open>radius\<close> otherwise. The ball
  at \<open>(100, 435)\<close> with radius 20 and velocity \<open>(0, 4)\<close> in a viewport of height 450
  ends with \<open>velocity.y = -4\<close> and \<open>position.y = 430\<close>.
\<close>

theorem vertical_reflection_clamp:
  "(vec_y (position b) + vec_y (velocity b) + radius b \<ge> of_int h
      \<or> vec_y (position b) + vec_y (velocity b) - radius b \<le> 0 \<longrightarrow>
    vec_y (velocity (UpdateBall b w h)) = - vec_y (velocity b)
    \<and> vec_y (position (UpdateBall b w h)) =
        (if vec_y (position b) + vec_y (velocity b) + radius b \<ge> of_int h
         then of_int h - radius b else radius b))
   \<and> vec_y (velocity (UpdateBall (mk_ball 100 435 0 4 20 c) w 450)) = - 4
   \<and> vec_y (position (UpdateBall (mk_ball 100 435 0 4 20 c) w 450)) = 430"
  by (simp add: UpdateBall_def Let_def mk_ball_def)

theorem vertical_reflection_clamp_witness:
  "of_int 450 \<le> vec_y (position (mk_ball 100 435 0 4 20 RED))
      + vec_y (velocity (mk_ball 100 435 0 4 20 RED)) + radius (mk_ball 100 435 0 4 20 RED)
   \<and> vec_y (velocity (UpdateBall (mk_ball 100 435 0 4 20 RED) 800 450)) = - 4
   \<and> vec_y (position (UpdateBall (mk_ball 100 435 0 4 20 RED) 800 450)) = 450 - 20"
  using vertical_reflection_clamp [where b = "mk_ball 100 435 0 4 20 RED" and w = 800 and h = 450 and c = RED]
  by (simp add: mk_ball_def)

text \<open>
  C5. \<^verbatim>\<open>UpdateBall\<close> keeps the speed \<open>sqrt (velocity.x\<^sup>2 + velocity.y\<^sup>2)\<close>: it changes at
  most the sign of a velocity component, never its absolute value.
\<close>

theorem speed_conserved:
  "sqrt ((vec_x (velocity (UpdateBall b w h)))\<^sup>2 + (vec_y (velocity (UpdateBall b w h)))\<^sup>2)
     = sqrt ((vec_x (velocity b))\<^sup>2 + (vec_y (velocity b))\<^sup>2)
   \<and> \<bar>vec_x (velocity (UpdateBall b w h))\<bar> = \<bar>vec_x (velocity b)\<bar>
   \<and> \<bar>vec_y (velocity (UpdateBall b w h))\<bar> = \<bar>vec_y (velocity b)\<bar>"
  by (simp add: UpdateBall_vel_x UpdateBall_vel_y)

text \<open>
  C2, as amended. In a viewport whose height is at least twice the radius (as 450 is for
  radius 20), after one \<^verbatim>\<open>UpdateBall\<close> the ball has
  \<open>radius \<le> position.y \<le> height - radius\<close>, whatever \<open>position.y\<close> and \<open>velocity.y\<close>
  were before.
\<close>

theorem vertical_containment:
  "2 * radius b \<le> of_int h \<Longrightarrow>
   radius b \<le> vec_y (position (UpdateBall b w h))
   \<and> vec_y (position (UpdateBall b w h)) \<le> of_int h - radius b"
  by (simp add: UpdateBall_pos_y Let_def)

theorem vertical_containment_witness:
  "2 * radius (mk_ball 100 435 0 4 20 RED) \<le> of_int 450
   \<and> radius (mk_ball 100 435 0 4 20 RED)
       \<le> vec_y (position (UpdateBall (mk_ball 100 435 0 4 20 RED) 800 450))
   \<and> vec_y (position (UpdateBall (mk_ball 100 435 0 4 20 RED) 800 450))
       \<le> of_int 450 - radius (mk_ball 100 435 0 4 20 RED)"
proof -
  have h: "2 * radius (mk_ball 100 435 0 4 20 RED) \<le> of_int 450"
    by (simp add: mk_ball_def)
  show ?thesis
    using h vertical_containment [OF h, of 800] by simp
qed

text \<open>
  C2 as stated (any positive viewport height) fails: in a viewport of height 10 a ball of
  radius 20 resting at \<open>y = 0\<close> is put at \<open>10 - 20 = -10\<close>, below its radius.
\<close>

theorem vertical_containment_small_viewport:
  "(0::int) < 10
   \<and> vec_y (position (UpdateBall (mk_ball 100 0 0 0 20 RED) 800 10)) = - 10
   \<and> \<not> (radius (mk_ball 100 0 0 0 20 RED)
           \<le> vec_y (position (UpdateBall (mk_ball 100 0 0 0 20 RED) 800 10))
         \<and> vec_y (position (UpdateBall (mk_ball 100 0 0 0 20 RED) 800 10))
           \<le> of_int 10 - radius (mk_ball 100 0 0 0 20 RED))"
  by (simp add: UpdateBall_def Let_def mk_ball_def)


text \<open>
  C8. \<^verbatim>\<open>UpdateBall\<close> leaves the radius and the colour of the ball as they were, and so
  does every frame of the main loop, for every ball of the array.
\<close>

theorem radius_color_unchanged:
  "radius (UpdateBall b w h) = radius b \<and> color (UpdateBall b w h) = color b
   \<and> map radius (balls ((frame ^^ n) wd)) = map radius (balls wd)
   \<and> map color (balls ((frame ^^ n) wd)) = map color (balls wd)"
  by (simp add: UpdateBall_radius UpdateBall_color frames_radius_color)

subsection \<open>The horizontal axis has no clamp\<close>

text \<open>
  C1. The initializer can produce the ball at \<open>(22, 100)\<close> with velocity \<open>(-3, 2)\<close>
  (draws 22, 100, 300, 200, 1, 0, 0). After one \<^verbatim>\<open>UpdateBall\<close> in the 800 by 450
  viewport its \<open>position.x\<close> is 19, below the radius 20: the horizontal branch negates
  the velocity and does not put the position back inside, as the vertical branch does.
\<close>

theorem horizontal_position_leaves_bounds:
  "init_ball (\<lambda>lo hi g. (hd g, tl g)) [22, 100, 300, 200, 1, 0, 0]
      = Inr (mk_ball 22 100 (- 3) 2 20 RED, [])
   \<and> vec_x (position (UpdateBall (mk_ball 22 100 (- 3) 2 20 RED) SCREEN_WIDTH SCREEN_HEIGHT)) = 19
   \<and> \<not> (radius (UpdateBall (mk_ball 22 100 (- 3) 2 20 RED) SCREEN_WIDTH SCREEN_HEIGHT)
          \<le> vec_x (position (UpdateBall (mk_ball 22 100 (- 3) 2 20 RED) SCREEN_WIDTH SCREEN_HEIGHT)))"
  by (simp add: init_ball_def mk_ball_def BALL_RADIUS_def ballColors_def numColors_def
      UpdateBall_def Let_def)

text \<open>
  C6. The initializer can produce the ball at \<open>(20, 100)\<close> with velocity \<open>(-3, 2)\<close>
  (draws 20, 100, 300, 200, 1, 0, 0). Its first \<^verbatim>\<open>UpdateBall\<close> meets the horizontal
  reflection condition at \<open>x = 17\<close>; the next one moves it back to \<open>x = 20\<close>, where the
  condition holds again and the velocity is negated a second time. The condition holds at
  every later step as well: the ball never leaves the wall.
\<close>

theorem horizontal_ball_stuck:
  "init_ball (\<lambda>lo hi g. (hd g, tl g)) [20, 100, 300, 200, 1, 0, 0]
      = Inr (mk_ball 20 100 (- 3) 2 20 RED, [])
   \<and> hits_x (advance (mk_ball 20 100 (- 3) 2 20 RED)) SCREEN_WIDTH
   \<and> vec_x (position (UpdateBall (mk_ball 20 100 (- 3) 2 20 RED) SCREEN_WIDTH SCREEN_HEIGHT)) = 17
   \<and> vec_x (velocity (UpdateBall (mk_ball 20 100 (- 3) 2 20 RED) SCREEN_WIDTH SCREEN_HEIGHT)) = 3
   \<and> hits_x (advance (UpdateBall (mk_ball 20 100 (- 3) 2 20 RED) SCREEN_WIDTH SCREEN_HEIGHT))
        SCREEN_WIDTH
   \<and> vec_x (velocity (UpdateBall (UpdateBall (mk_ball 20 100 (- 3) 2 20 RED) SCREEN_WIDTH
        SCREEN_HEIGHT) SCREEN_WIDTH SCREEN_HEIGHT)) = - 3
   \<and> hits_x (advance (((\<lambda>b. UpdateBall b SCREEN_WIDTH SCREEN_HEIGHT) ^^ n)
        (mk_ball 20 100 (- 3) 2 20 RED))) SCREEN_WIDTH"
proof -
  let ?b0 = "mk_ball 20 100 (- 3) 2 20 RED"
  let ?bn = "((\<lambda>b. UpdateBall b 800 SCREEN_HEIGHT) ^^ n) ?b0"
  have i: "init_ball (\<lambda>lo hi g. (hd g, tl g)) [20, 100, 300, 200, 1, 0, 0] = Inr (?b0, [])"
    by (simp add: init_ball_def mk_ball_def BALL_RADIUS_def ballColors_def numColors_def)
  have r: "radius ?bn = 20"
    and d: "(vec_x (position ?bn) = 20 \<and> vec_x (velocity ?bn) = - 3)
            \<or> (vec_x (position ?bn) = 17 \<and> vec_x (velocity ?bn) = 3)"
    using stuck_steps [where h = SCREEN_HEIGHT and n = n] by (rule conjunct1, rule conjunct2)
  have s: "hits_x (advance ?bn) SCREEN_WIDTH"
    unfolding SCREEN_WIDTH_def using stuck_step [OF r d] by (rule conjunct1)
  have a1: "hits_x (advance ?b0) SCREEN_WIDTH"
    by (simp add: hits_x_def advance_def Let_def mk_ball_def SCREEN_WIDTH_def)
  have a2: "vec_x (position (UpdateBall ?b0 SCREEN_WIDTH SCREEN_HEIGHT)) = 17"
    by (simp add: UpdateBall_def Let_def mk_ball_def)
  have a3: "vec_x (velocity (UpdateBall ?b0 SCREEN_WIDTH SCREEN_HEIGHT)) = 3"
    by (simp add: UpdateBall_def Let_def mk_ball_def SCREEN_WIDTH_def)
  have r0: "radius ?b0 = 20"
    by (simp add: mk_ball_def)
  have a4: "hits_x (advance (UpdateBall ?b0 SCREEN_WIDTH SCREEN_HEIGHT)) SCREEN_WIDTH"
    by (simp add: hits_x_def advance_def Let_def a2 a3 UpdateBall_radius r0)
  have "vec_x (velocity (UpdateBall (UpdateBall ?b0 SCREEN_WIDTH SCREEN_HEIGHT)
              SCREEN_WIDTH SCREEN_HEIGHT))
        = (if hits_x (advance (UpdateBall ?b0 SCREEN_WIDTH SCREEN_HEIGHT)) SCREEN_WIDTH
           then - vec_x (velocity (UpdateBall ?b0 SCREEN_WIDTH SCREEN_HEIGHT))
           else vec_x (velocity (UpdateBall ?b0 SCREEN_WIDTH SCREEN_HEIGHT)))"
    by (rule UpdateBall_vel_x)
  then have a5: "vec_x (velocity (UpdateBall (UpdateBall ?b0 SCREEN_WIDTH SCREEN_HEIGHT)
              SCREEN_WIDTH SCREEN_HEIGHT)) = - 3"
    by (simp only: a4 a3 if_True)
  have s': "hits_x (advance (((\<lambda>b. UpdateBall b SCREEN_WIDTH SCREEN_HEIGHT) ^^ n) ?b0)) SCREEN_WIDTH"
    using s unfolding SCREEN_WIDTH_def .
  show ?thesis
    by (intro conjI) (rule i a1 a2 a3 a4 a5 s')+
qed


subsection \<open>The vertical axis does not reflect twice in a row\<close>

text \<open>
  C10, as amended. Take a ball of radius 20 in the viewport of height 450 whose
  \<open>position.y\<close> lies within \<open>[20, 430]\<close> (as the initializer and every earlier step
  leave it) and whose \<open>velocity.y\<close> has absolute value within \<open>[2, 8]\<close>. When an
  \<^verbatim>\<open>UpdateBall\<close> meets the vertical reflection condition, and so clamps \<open>position.y\<close>,
  the next \<^verbatim>\<open>UpdateBall\<close> does not meet it and leaves \<open>velocity.y\<close> as it is.
\<close>

theorem no_double_vertical_reflection:
  assumes "radius b = BALL_RADIUS"
    and "BALL_RADIUS \<le> vec_y (position b)"
    and "vec_y (position b) \<le> of_int SCREEN_HEIGHT - BALL_RADIUS"
    and "BALL_MIN_SPEED \<le> \<bar>vec_y (velocity b)\<bar>"
    and "\<bar>vec_y (velocity b)\<bar> \<le> BALL_MAX_SPEED"
    and "hits_y (advance b) SCREEN_HEIGHT"
  shows "\<not> hits_y (advance (UpdateBall b w SCREEN_HEIGHT)) SCREEN_HEIGHT
       \<and> vec_y (velocity (UpdateBall (UpdateBall b w SCREEN_HEIGHT) w' SCREEN_HEIGHT))
           = vec_y (velocity (UpdateBall b w SCREEN_HEIGHT))"
proof -
  let ?b' = "UpdateBall b w SCREEN_HEIGHT"
  have r: "radius ?b' = 20"
    using assms(1) by (simp add: UpdateBall_radius BALL_RADIUS_def)
  have v: "vec_y (velocity ?b') = - vec_y (velocity b)"
    using assms(6) by (simp add: UpdateBall_vel_y)
  have p: "vec_y (position ?b') =
             (if vec_y (position b) + vec_y (velocity b) + 20 \<ge> 450 then 430 else 20)"
    using assms(1,6)
    by (auto simp add: UpdateBall_pos_y Let_def hits_y_def advance_def BALL_RADIUS_def
        SCREEN_HEIGHT_def)
  have nh: "\<not> hits_y (advance ?b') SCREEN_HEIGHT"
    using assms(1-6) r v p
    by (auto simp add: hits_y_def advance_def Let_def BALL_RADIUS_def SCREEN_HEIGHT_def
        BALL_MIN_SPEED_def BALL_MAX_SPEED_def)
  then show ?thesis
    by (simp add: UpdateBall_vel_y)
qed

theorem no_double_vertical_reflection_witness:
  "radius (mk_ball 100 427 3 5 20 RED) = BALL_RADIUS
   \<and> hits_y (advance (mk_ball 100 427 3 5 20 RED)) SCREEN_HEIGHT
   \<and> \<not> hits_y (advance (UpdateBall (mk_ball 100 427 3 5 20 RED) SCREEN_WIDTH SCREEN_HEIGHT))
          SCREEN_HEIGHT
   \<and> vec_y (velocity (UpdateBall (UpdateBall (mk_ball 100 427 3 5 20 RED) SCREEN_WIDTH
         SCREEN_HEIGHT) SCREEN_WIDTH SCREEN_HEIGHT))
       = vec_y (velocity (UpdateBall (mk_ball 100 427 3 5 20 RED) SCREEN_WIDTH SCREEN_HEIGHT))"
proof -
  let ?b0 = "mk_ball 100 427 3 5 20 RED"
  have h1: "radius ?b0 = BALL_RADIUS"
    by (simp add: mk_ball_def BALL_RADIUS_def)
  have h2: "BALL_RADIUS \<le> vec_y (position ?b0)"
    by (simp add: mk_ball_def BALL_RADIUS_def)
  have h3: "vec_y (position ?b0) \<le> of_int SCREEN_HEIGHT - BALL_RADIUS"
    by (simp add: mk_ball_def BALL_RADIUS_def SCREEN_HEIGHT_def)
  have h4: "BALL_MIN_SPEED \<le> \<bar>vec_y (velocity ?b0)\<bar>"
    by (simp add: mk_ball_def BALL_MIN_SPEED_def)
  have h5: "\<bar>vec_y (velocity ?b0)\<bar> \<le> BALL_MAX_SPEED"
    by (simp add: mk_ball_def BALL_MAX_SPEED_def)
  have h6: "hits_y (advance ?b0) SCREEN_HEIGHT"
    by (simp add: mk_ball_def hits_y_def advance_def Let_def SCREEN_HEIGHT_def)
  show ?thesis
    using h1 h6
      no_double_vertical_reflection [OF h1 h2 h3 h4 h5 h6, of SCREEN_WIDTH SCREEN_WIDTH]
    by (intro conjI) (rule h1 h6, blast+)
qed

text \<open>
  C10 as stated bounds only the velocity, and fails for a ball that starts outside the
  viewport: from \<open>y = 1000\<close> with \<open>velocity.y = -5\<close> the first step clamps the ball to
  \<open>y = 430\<close> and turns its velocity to \<open>+5\<close>, toward the wall, so the second step
  reflects again.
\<close>

theorem double_vertical_reflection_from_outside:
  "radius (mk_ball 100 1000 3 (- 5) 20 RED) = BALL_RADIUS
   \<and> BALL_MIN_SPEED \<le> \<bar>vec_y (velocity (mk_ball 100 1000 3 (- 5) 20 RED))\<bar>
   \<and> \<bar>vec_y (velocity (mk_ball 100 1000 3 (- 5) 20 RED))\<bar> \<le> BALL_MAX_SPEED
   \<and> hits_y (advance (mk_ball 100 1000 3 (- 5) 20 RED)) SCREEN_HEIGHT
   \<and> vec_y (position (UpdateBall (mk_ball 100 1000 3 (- 5) 20 RED) SCREEN_WIDTH SCREEN_HEIGHT))
       = of_int SCREEN_HEIGHT - BALL_RADIUS
   \<and> hits_y (advance (UpdateBall (mk_ball 100 1000 3 (- 5) 20 RED) SCREEN_WIDTH SCREEN_HEIGHT))
        SCREEN_HEIGHT
   \<and> vec_y (velocity (UpdateBall (UpdateBall (mk_ball 100 1000 3 (- 5) 20 RED) SCREEN_WIDTH
        SCREEN_HEIGHT) SCREEN_WIDTH SCREEN_HEIGHT))
       = - vec_y (velocity (UpdateBall (mk_ball 100 1000 3 (- 5) 20 RED) SCREEN_WIDTH SCREEN_HEIGHT))"
proof -
  let ?b0 = "mk_ball 100 1000 3 (- 5) 20 RED"
  let ?b1 = "UpdateBall ?b0 SCREEN_WIDTH SCREEN_HEIGHT"
  have c1: "radius ?b0 = BALL_RADIUS"
    by (simp add: mk_ball_def BALL_RADIUS_def)
  have c2: "BALL_MIN_SPEED \<le> \<bar>vec_y (velocity ?b0)\<bar>"
    by (simp add: mk_ball_def BALL_MIN_SPEED_def)
  have c3: "\<bar>vec_y (velocity ?b0)\<bar> \<le> BALL_MAX_SPEED"
    by (simp add: mk_ball_def BALL_MAX_SPEED_def)
  have c5: "vec_y (position ?b1) = of_int SCREEN_HEIGHT - BALL_RADIUS"
    using clamp_trap_facts(2) by (simp add: SCREEN_HEIGHT_def BALL_RADIUS_def)
  have r1: "radius ?b1 = 20"
    by (simp add: UpdateBall_radius mk_ball_def)
  have c6: "hits_y (advance ?b1) SCREEN_HEIGHT"
    using clamp_trap_facts(2,3) r1
    by (simp add: hits_y_def advance_def Let_def SCREEN_HEIGHT_def)
  have "vec_y (velocity (UpdateBall ?b1 SCREEN_WIDTH SCREEN_HEIGHT))
          = (if hits_y (advance ?b1) SCREEN_HEIGHT then - vec_y (velocity ?b1)
             else vec_y (velocity ?b1))"
    by (rule UpdateBall_vel_y)
  then have c7: "vec_y (velocity (UpdateBall ?b1 SCREEN_WIDTH SCREEN_HEIGHT))
          = - vec_y (velocity ?b1)"
    by (simp only: c6 if_True)
  show ?thesis
    by (intro conjI) (rule c1 c2 c3 clamp_trap_facts(1) c5 c6 c7)+
qed


subsection \<open>What the initializer produces\<close>

text \<open>
  C7. When \<^verbatim>\<open>GetRandomValue\<close> returns a value within its inclusive argument range, the
  initializer fills the whole array (no read outside the palette), and every ball it
  produces has \<open>position.x\<close> in \<open>[20, 780]\<close>, \<open>position.y\<close> in \<open>[20, 430]\<close>, and
  \<open>|velocity.x|\<close> and \<open>|velocity.y|\<close> in \<open>[BALL_MIN_SPEED, BALL_MAX_SPEED] = [2, 8]\<close>.
\<close>

theorem init_balls_bounds:
  assumes "\<And>lo hi g. lo \<le> hi \<Longrightarrow>
             lo \<le> fst (GetRandomValue lo hi g) \<and> fst (GetRandomValue lo hi g) \<le> hi"
  shows "\<exists>bs g1. init_balls GetRandomValue NUM_BALLS g = Inr (bs, g1)
     \<and> length bs = NUM_BALLS
     \<and> (\<forall>b\<in>set bs.
           20 \<le> vec_x (position b) \<and> vec_x (position b) \<le> 780
         \<and> 20 \<le> vec_y (position b) \<and> vec_y (position b) \<le> 430
         \<and> BALL_MIN_SPEED \<le> \<bar>vec_x (velocity b)\<bar> \<and> \<bar>vec_x (velocity b)\<bar> \<le> BALL_MAX_SPEED
         \<and> BALL_MIN_SPEED \<le> \<bar>vec_y (velocity b)\<bar> \<and> \<bar>vec_y (velocity b)\<bar> \<le> BALL_MAX_SPEED)"
  by (rule init_balls_bounds_any) (rule assms)

theorem init_balls_bounds_witness:
  "\<exists>bs g1. init_balls (\<lambda>lo hi (g::unit). (lo, g)) NUM_BALLS () = Inr (bs, g1)
     \<and> length bs = NUM_BALLS
     \<and> (\<forall>b\<in>set bs.
           20 \<le> vec_x (position b) \<and> vec_x (position b) \<le> 780
         \<and> 20 \<le> vec_y (position b) \<and> vec_y (position b) \<le> 430
         \<and> BALL_MIN_SPEED \<le> \<bar>vec_x (velocity b)\<bar> \<and> \<bar>vec_x (velocity b)\<bar> \<le> BALL_MAX_SPEED
         \<and> BALL_MIN_SPEED \<le> \<bar>vec_y (velocity b)\<bar> \<and> \<bar>vec_y (velocity b)\<bar> \<le> BALL_MAX_SPEED)"
proof -
  have h: "lo \<le> fst ((\<lambda>lo hi (g::unit). (lo, g)) lo hi g)
           \<and> fst ((\<lambda>lo hi (g::unit). (lo, g)) lo hi g) \<le> hi" if "lo \<le> hi" for lo hi :: int and g
    using that by simp
  show ?thesis
    using init_balls_bounds [of "\<lambda>lo hi (g::unit). (lo, g)" "()", OF h] .
qed

subsection \<open>The main loop and the exit code\<close>

text \<open>
  C9. When the close query reports true at the head of the loop, the loop returns the
  world as it is: no further physics step, no further drawing call. When the \<open>n\<close>-th
  query is the first to report true, the loop has run exactly \<open>n\<close> frames, and the
  program calls \<^verbatim>\<open>CloseWindow\<close> and returns 0. Whenever the program returns an exit
  code, that code is 0.
\<close>

theorem close_ends_program:
  "(WindowShouldClose n \<longrightarrow> main_loop WindowShouldClose n w = Some w)
   \<and> (WindowShouldClose n \<and> (\<forall>j<n. \<not> WindowShouldClose j) \<longrightarrow>
        main_loop WindowShouldClose 0 w = Some ((frame ^^ n) w))
   \<and> (WindowShouldClose n \<and> (\<forall>j<n. \<not> WindowShouldClose j)
        \<and> init_balls GetRandomValue NUM_BALLS g = Inr (bs, g1) \<longrightarrow>
        main GetRandomValue g WindowShouldClose =
          Some (Inr (0, trace ((frame ^^ n)
            \<lparr>balls = bs,
             trace = [InitWindow SCREEN_WIDTH SCREEN_HEIGHT ''Raylib C - Bouncing Ball'',
                      SetTargetFPS TARGET_FPS]\<rparr>) @ [CloseWindow])))
   \<and> (main GetRandomValue g WindowShouldClose = Some (Inr (c, tr)) \<longrightarrow> c = 0)"
proof (intro conjI impI)
  assume "WindowShouldClose n"
  then show "main_loop WindowShouldClose n w = Some w"
    by (subst main_loop.simps) simp
next
  assume "WindowShouldClose n \<and> (\<forall>j<n. \<not> WindowShouldClose j)"
  then show "main_loop WindowShouldClose 0 w = Some ((frame ^^ n) w)"
    using main_loop_runs [of WindowShouldClose 0 n w] by simp
next
  assume a: "WindowShouldClose n \<and> (\<forall>j<n. \<not> WindowShouldClose j)
        \<and> init_balls GetRandomValue NUM_BALLS g = Inr (bs, g1)"
  have run: "main_loop WindowShouldClose 0 w' = Some ((frame ^^ n) w')" for w'
    using a main_loop_runs [of WindowShouldClose 0 n w'] by simp
  show "main GetRandomValue g WindowShouldClose =
          Some (Inr (0, trace ((frame ^^ n)
            \<lparr>balls = bs,
             trace = [InitWindow SCREEN_WIDTH SCREEN_HEIGHT ''Raylib C - Bouncing Ball'',
                      SetTargetFPS TARGET_FPS]\<rparr>) @ [CloseWindow]))"
    using a by (simp add: main_def Let_def run)
next
  assume "main GetRandomValue g WindowShouldClose = Some (Inr (c, tr))"
  then show "c = 0"
    by (rule main_exit_code)
qed

theorem close_ends_program_witness:
  "main (\<lambda>lo hi (g::unit). (lo, g)) () (\<lambda>k. 2 \<le> k) =
     Some (Inr (0, trace ((frame ^^ 2)
       \<lparr>balls = replicate NUM_BALLS (mk_ball 20 20 2 2 20 RED),
        trace = [InitWindow SCREEN_WIDTH SCREEN_HEIGHT ''Raylib C - Bouncing Ball'',
                 SetTargetFPS TARGET_FPS]\<rparr>) @ [CloseWindow]))"
proof -
  have h: "(\<lambda>k::nat. 2 \<le> k) 2 \<and> (\<forall>j<2. \<not> (\<lambda>k::nat. 2 \<le> k) j)
        \<and> init_balls (\<lambda>lo hi (g::unit). (lo, g)) NUM_BALLS ()
            = Inr (replicate NUM_BALLS (mk_ball 20 20 2 2 20 RED), ())"
    by (simp add: init_balls_lowest)
  show ?thesis
    using close_ends_program [where WindowShouldClose = "\<lambda>k. 2 \<le> k" and n = 2
        and GetRandomValue = "\<lambda>lo hi (g::unit). (lo, g)" and g = "()"
        and bs = "replicate NUM_BALLS (mk_ball 20 20 2 2 20 RED)" and ?g1.0 = "()"] h
    by blast
qed

end
